theory Spec2Isabelle
  imports Main "HOL-Library.Word"
begin

unbundle bit_operations_syntax

section \<open>The server module of pyinfra: \<^verbatim>\<open>pyinfra/modules/server.py\<close>\<close>

text \<open>
  The module holds four operations, \<^verbatim>\<open>wait\<close>, \<^verbatim>\<open>shell\<close>, \<^verbatim>\<open>script\<close> and \<^verbatim>\<open>user\<close>. Each one
  builds a list of shell command strings and returns it. The module is Python 2 code: byte
  strings are hashed directly and \<^verbatim>\<open>file\<close> is a builtin name.

  A command is a \<^typ>\<open>string\<close>, a plan is a \<^typ>\<open>string list\<close>. An operation that can raise
  returns \<open>error + string list\<close>, with \<open>Inl\<close> for the exception.

  The decorators \<^verbatim>\<open>operation\<close> and \<^verbatim>\<open>operation_facts\<close> come from \<^verbatim>\<open>pyinfra.api\<close>; what follows is the
  body of each decorated function. The ambient \<^verbatim>\<open>host.users\<close> read by \<^verbatim>\<open>user\<close> is an explicit
  argument, and the sub-operations of the module \<^verbatim>\<open>files\<close> are function arguments.
\<close>

subsection \<open>Python values and \<^verbatim>\<open>str.format\<close>\<close>

datatype error = TypeError string

text \<open>
  The values that reach a \<^verbatim>\<open>'{0}'.format(x)\<close> call of the module: \<^verbatim>\<open>None\<close>, a byte string or an
  integer. \<^verbatim>\<open>format\<close> renders \<^verbatim>\<open>None\<close> as the text \<^verbatim>\<open>None\<close>, a string as itself and an integer
  in decimal.
\<close>

datatype pyval = PyNone | PyStr string | PyInt int

definition digit_char :: "nat \<Rightarrow> char" where
  "digit_char d = ''0123456789'' ! d"

function str_nat :: "nat \<Rightarrow> string" where
  "str_nat n = (if n < 10 then [digit_char n] else str_nat (n div 10) @ [digit_char (n mod 10)])"
  by pat_completeness auto
termination
  by (relation "measure id") auto

definition str_int :: "int \<Rightarrow> string" where
  "str_int i = (if i < 0 then ''-'' @ str_nat (nat (- i)) else str_nat (nat i))"

fun format_val :: "pyval \<Rightarrow> string" where
  "format_val PyNone = ''None''"
| "format_val (PyStr s) = s"
| "format_val (PyInt i) = str_int i"

text \<open>The same rendering for an optional string parameter (\<^verbatim>\<open>home=None\<close>, \<^verbatim>\<open>shell=None\<close>).\<close>

fun format_opt :: "string option \<Rightarrow> string" where
  "format_opt None = ''None''"
| "format_opt (Some s) = s"

subsection \<open>\<^verbatim>\<open>wait\<close>\<close>

text \<open>
  \<^verbatim>\<open>wait(port=None)\<close> returns a one-element list: the triple-quoted template with both
  occurrences of \<^verbatim>\<open>{0}\<close> replaced by the formatted port. The template is cut here at the two
  placeholders; line breaks and indentation are those of the source.
\<close>

definition wait_head :: string where
  \<open>wait_head = ''\<newline>        if [ $(which nc) ]; then\<newline>            while ! nc -q 1 localhost ''\<close>

definition wait_mid :: string where
  \<open>wait_mid = '' < /dev/null; do sleep 5; done\<newline>        elif [ $(which timeout) ] && [ $(which bash) ]; then\<newline>            while ! timeout 1 bash -c "echo > /dev/tcp/localhost/''\<close>

definition wait_tail :: string where
  \<open>wait_tail = ''"; do sleep 5; done\<newline>        else\<newline>            echo "No nc or timeout/bash!"\<newline>            exit 1\<newline>        fi\<newline>    ''\<close>

definition wait :: "pyval \<Rightarrow> string list" where
  "wait port = [wait_head @ format_val port @ wait_mid @ format_val port @ wait_tail]"

subsection \<open>\<^verbatim>\<open>shell\<close>\<close>

text \<open>\<^verbatim>\<open>shell(*commands)\<close> returns \<^verbatim>\<open>list(commands)\<close>: the argument tuple as a list.\<close>

definition shell :: "string list \<Rightarrow> string list" where
  "shell commands = commands"

subsection \<open>\<^verbatim>\<open>hashlib.sha1\<close>\<close>

text \<open>
  \<^verbatim>\<open>script\<close> calls \<^verbatim>\<open>sha1()\<close>, \<^verbatim>\<open>update\<close> and \<^verbatim>\<open>hexdigest\<close> of the standard library. The hash object
  is modelled by the bytes fed to it so far; \<^verbatim>\<open>hexdigest\<close> is SHA-1 as in FIPS 180: padding to
  a multiple of 64 bytes, a message schedule of 80 words per block, 80 rounds on five 32-bit
  words, and the five words printed as 40 lower-case hexadecimal digits.
\<close>

type_synonym sha1_state = "32 word \<times> 32 word \<times> 32 word \<times> 32 word \<times> 32 word"

definition be64 :: "64 word \<Rightarrow> 8 word list" where
  "be64 n = map (\<lambda>i. ucast (drop_bit (8 * (7 - i)) n)) [0..<8]"

definition sha1_pad :: "8 word list \<Rightarrow> 8 word list" where
  "sha1_pad bs =
     (let l = length bs; k = (119 - l mod 64) mod 64
      in bs @ [0x80] @ replicate k 0 @ be64 (word_of_nat (8 * l)))"

fun be_words :: "8 word list \<Rightarrow> 32 word list" where
  "be_words (a # b # c # d # rest) =
     (push_bit 24 (ucast a) OR push_bit 16 (ucast b) OR push_bit 8 (ucast c) OR ucast d)
       # be_words rest"
| "be_words _ = []"

text \<open>
  The message schedule is kept newest word first, so that the words 3, 8, 14 and 16 places
  back are at the positions 2, 7, 13 and 15.
\<close>

fun sha1_expand :: "nat \<Rightarrow> 32 word list \<Rightarrow> 32 word list" where
  "sha1_expand 0 w = w"
| "sha1_expand (Suc n) w =
     sha1_expand n (word_rotl 1 (w ! 2 XOR w ! 7 XOR w ! 13 XOR w ! 15) # w)"

definition sha1_f :: "nat \<Rightarrow> 32 word \<Rightarrow> 32 word \<Rightarrow> 32 word \<Rightarrow> 32 word" where
  "sha1_f i b c d =
     (if i < 20 then (b AND c) OR (NOT b AND d)
      else if i < 40 then b XOR c XOR d
      else if i < 60 then (b AND c) OR (b AND d) OR (c AND d)
      else b XOR c XOR d)"

definition sha1_k :: "nat \<Rightarrow> 32 word" where
  "sha1_k i =
     (if i < 20 then 0x5A827999 else if i < 40 then 0x6ED9EBA1
      else if i < 60 then 0x8F1BBCDC else 0xCA62C1D6)"

fun sha1_round :: "sha1_state \<Rightarrow> nat \<times> 32 word \<Rightarrow> sha1_state" where
  "sha1_round (a, b, c, d, e) (i, wi) =
     (word_rotl 5 a + sha1_f i b c d + e + sha1_k i + wi, a, word_rotl 30 b, c, d)"

fun sha1_add :: "sha1_state \<Rightarrow> sha1_state \<Rightarrow> sha1_state" where
  "sha1_add (a, b, c, d, e) (a', b', c', d', e') = (a + a', b + b', c + c', d + d', e + e')"

definition sha1_block :: "sha1_state \<Rightarrow> 8 word list \<Rightarrow> sha1_state" where
  "sha1_block h block =
     (let w = rev (sha1_expand 64 (rev (be_words block)))
      in sha1_add h (foldl sha1_round h (zip [0..<80] w)))"

function sha1_blocks :: "sha1_state \<Rightarrow> 8 word list \<Rightarrow> sha1_state" where
  "sha1_blocks h bs =
     (if bs = [] then h else sha1_blocks (sha1_block h (take 64 bs)) (drop 64 bs))"
  by pat_completeness auto
termination
  by (relation "measure (\<lambda>(h, bs). length bs)") auto

definition sha1_init :: sha1_state where
  "sha1_init = (0x67452301, 0xEFCDAB89, 0x98BADCFE, 0x10325476, 0xC3D2E1F0)"

definition hex_digit :: "nat \<Rightarrow> char" where
  "hex_digit d = ''0123456789abcdef'' ! d"

definition hex32 :: "32 word \<Rightarrow> string" where
  "hex32 w = map (\<lambda>i. hex_digit (unat (drop_bit (4 * (7 - i)) w AND 0xF))) [0..<8]"

fun sha1_hex :: "sha1_state \<Rightarrow> string" where
  "sha1_hex (a, b, c, d, e) = hex32 a @ hex32 b @ hex32 c @ hex32 d @ hex32 e"

type_synonym sha1_obj = string

definition sha1 :: sha1_obj where
  "sha1 = []"

definition update :: "sha1_obj \<Rightarrow> string \<Rightarrow> sha1_obj" where
  "update h s = h @ s"

definition hexdigest :: "sha1_obj \<Rightarrow> string" where
  "hexdigest h = sha1_hex (sha1_blocks sha1_init (sha1_pad (map of_char h)))"

subsection \<open>\<^verbatim>\<open>script\<close>\<close>

text \<open>
  \<^verbatim>\<open>files.put\<close> belongs to the sibling module \<^verbatim>\<open>files\<close> and is taken as a parameter: a function
  of the local file name and the remote path to the upload commands. Whatever depends on the
  content of the local file is inside it; \<^verbatim>\<open>script\<close> itself never opens the file.
\<close>

type_synonym put_op = "string \<Rightarrow> string \<Rightarrow> string list"

definition script :: "put_op \<Rightarrow> string \<Rightarrow> string list" where
  "script put filename =
     (let commands = [];
          hash = sha1;
          hash = update hash filename;
          temp_file = ''/tmp/'' @ hexdigest hash;
          commands = commands @ put filename temp_file;
          commands = commands @ [''chmod +x '' @ temp_file];
          commands = commands @ [temp_file]
      in commands)"

subsection \<open>\<^verbatim>\<open>user\<close>\<close>

text \<open>
  The \<^verbatim>\<open>users\<close> fact maps a user name to a dict with the keys \<^verbatim>\<open>home\<close> and \<^verbatim>\<open>shell\<close>. Such a
  dict is not empty, so it is truthy in \<^verbatim>\<open>not present and user\<close>. \<^verbatim>\<open>host.users\<close> itself may be
  \<^verbatim>\<open>None\<close>; \<^verbatim>\<open>host.users or {}\<close> then gives the empty dict.
\<close>

record user_fact =
  fact_home :: string
  fact_shell :: string

type_synonym users_fact = "string \<rightharpoonup> user_fact"

text \<open>
  \<^verbatim>\<open>files.directory\<close> belongs to the sibling module \<^verbatim>\<open>files\<close>. It is taken as a parameter: a
  function of the path, the \<^verbatim>\<open>user\<close> and \<^verbatim>\<open>group\<close> keywords and the optional \<^verbatim>\<open>mode\<close> keyword
  (\<open>None\<close> when the call does not pass it) to a list of commands. The path is \<^verbatim>\<open>home\<close> itself in
  the first call, so it can be \<^verbatim>\<open>None\<close>.
\<close>

type_synonym directory_op = "string option \<Rightarrow> string \<Rightarrow> string \<Rightarrow> string option \<Rightarrow> string list"

text \<open>
  The module never binds the name \<^verbatim>\<open>file\<close> (it imports \<^verbatim>\<open>sha1\<close>, \<^verbatim>\<open>host\<close>, \<^verbatim>\<open>operation\<close>,
  \<^verbatim>\<open>operation_facts\<close> and \<^verbatim>\<open>files\<close>), so \<^verbatim>\<open>file(filename, user=..., group=..., mode='600')\<close> calls
  the builtin file type of Python 2, whose keywords are \<^verbatim>\<open>name\<close>, \<^verbatim>\<open>mode\<close> and \<^verbatim>\<open>buffering\<close>: the
  call raises \<^verbatim>\<open>TypeError\<close> before anything is opened. (Under Python 3 the name is unbound and the
  call raises \<^verbatim>\<open>NameError\<close>; no plan is returned either way.)
\<close>

definition builtin_file :: "string \<Rightarrow> string \<Rightarrow> string \<Rightarrow> string \<Rightarrow> error + string list" where
  "builtin_file filename usr grp mode =
     Inl (TypeError ''user is an invalid keyword argument for this function'')"

definition userdel_cmd :: "string \<Rightarrow> string" where
  "userdel_cmd name = ''userdel '' @ name"

definition useradd_cmd :: "string option \<Rightarrow> string option \<Rightarrow> string \<Rightarrow> string" where
  "useradd_cmd home login_shell name =
     ''useradd -d '' @ format_opt home @ '' -s '' @ format_opt login_shell @ '' '' @ name"

definition usermod_home_cmd :: "string option \<Rightarrow> string \<Rightarrow> string" where
  "usermod_home_cmd home name = ''usermod -d '' @ format_opt home @ '' '' @ name"

definition usermod_shell_cmd :: "string option \<Rightarrow> string \<Rightarrow> string" where
  "usermod_shell_cmd login_shell name = ''usermod -s '' @ format_opt login_shell @ '' '' @ name"

definition key_cmd :: "string \<Rightarrow> string \<Rightarrow> string" where
  \<open>key_cmd filename key =
     ''cat '' @ filename @ '' | grep "'' @ key @ ''" || echo "'' @ key @ ''" >> '' @ filename\<close>

text \<open>
  The if/else after the removal test (source lines 83 to 96). The else branch is taken whenever
  \<^verbatim>\<open>present and user is None\<close> is false, so also with \<^verbatim>\<open>present=False\<close> and no record; there
  \<^verbatim>\<open>user['home']\<close> subscripts \<^verbatim>\<open>None\<close> and raises.
\<close>

definition user_fields ::
  "string list \<Rightarrow> user_fact option \<Rightarrow> string \<Rightarrow> bool \<Rightarrow> string option \<Rightarrow> string option
     \<Rightarrow> error + string list" where
  "user_fields commands usr name present home login_shell =
     (if present \<and> usr = None then
        Inr (commands @ [useradd_cmd home login_shell name])
      else
        (case usr of
           None \<Rightarrow> Inl (TypeError ''NoneType object has no attribute __getitem__'')
         | Some u \<Rightarrow>
             (let commands = (if Some (fact_home u) \<noteq> home
                              then commands @ [usermod_home_cmd home name] else commands);
                  commands = (if Some (fact_shell u) \<noteq> login_shell
                              then commands @ [usermod_shell_cmd login_shell name] else commands)
              in Inr commands)))"

text \<open>The block under \<^verbatim>\<open>if public_keys is not None\<close> (source lines 106 to 128).\<close>

definition user_keys ::
  "directory_op \<Rightarrow> string list \<Rightarrow> string \<Rightarrow> string option \<Rightarrow> string list \<Rightarrow> error + string list" where
  "user_keys directory commands name home public_keys =
     (let commands = commands @ directory (Some (format_opt home @ ''/.ssh'')) name name (Some ''700'');
          filename = format_opt home @ ''/.ssh/authorized_keys''
      in case builtin_file filename name name ''600'' of
           Inl e \<Rightarrow> Inl e
         | Inr cs \<Rightarrow>
             Inr (foldl (\<lambda>commands key. commands @ [key_cmd filename key]) (commands @ cs) public_keys))"

definition user ::
  "directory_op \<Rightarrow> users_fact option \<Rightarrow> string \<Rightarrow> bool \<Rightarrow> string option \<Rightarrow> string option
     \<Rightarrow> string list option \<Rightarrow> error + string list" where
  "user directory host_users name present home login_shell public_keys =
     (let commands = [];
          users = (case host_users of None \<Rightarrow> Map.empty | Some m \<Rightarrow> m);
          usr = users name
      in if \<not> present \<and> usr \<noteq> None then Inr (commands @ [userdel_cmd name])
         else
           (case user_fields commands usr name present home login_shell of
              Inl e \<Rightarrow> Inl e
            | Inr commands \<Rightarrow>
                (let commands = commands @ directory home name name None
                 in case public_keys of
                      None \<Rightarrow> Inr commands
                    | Some keys \<Rightarrow> user_keys directory commands name home keys)))"

subsection \<open>A test input for the hash\<close>

text \<open>
  The padded block of the three bytes \<^verbatim>\<open>abc\<close> and its message schedule, used below to run
  \<^const>\<open>hexdigest\<close> on the first test vector of FIPS 180.
\<close>

definition abc_block :: "8 word list" where
  "abc_block =
    [97, 98, 99, 128, 0, 0, 0, 0, 0, 0, 0, 0, 0, 0, 0, 0, 0, 0, 0, 0, 0, 0, 0, 0, 0, 0, 0, 0,
     0, 0, 0, 0, 0, 0, 0, 0, 0, 0, 0, 0, 0, 0, 0, 0, 0, 0, 0, 0, 0, 0, 0, 0, 0, 0, 0, 0, 0, 0,
     0, 0, 0, 0, 0, 24]"

definition abc_schedule :: "32 word list" where
  "abc_schedule =
    [1633837952, 0, 0, 0, 0, 0, 0, 0, 0, 0, 0, 0, 0, 0, 0, 24, 3267675904, 0, 48, 2240384513,
     0, 96, 185801731, 48, 2240384705, 371603462, 0, 384, 743206924, 240, 2477765895,
     1486413896, 2392494594, 1536, 2972827888, 371604422, 1321128990, 1650688161, 371603462,
     6336, 3537975492, 3840, 989548665, 2307785957, 3803855915, 24768, 87701453, 1950713159,
     3667138029, 641206806, 1650688929, 1321161950, 943043659, 62976, 512018339, 2564836760,
     1696405152, 1650822305, 1166361814, 1146637495, 2074109465, 1669377698, 182801001,
     1652246945, 2094292125, 983040, 4216354106, 3966199272, 3124505570, 6340608, 976735493,
     1166362356, 3092880854, 940186150, 31465987, 3888919638, 3873835881, 16124416, 1469443919,
     2184054905]"

section \<open>Properties\<close>

subsection \<open>The hash on a test vector\<close>

lemma sha1_expand_add: "sha1_expand (m + n) w = sha1_expand n (sha1_expand m w)"
  by (induction m arbitrary: w) simp_all

lemma sha1_abc_pad: "sha1_pad (map of_char (update sha1 ''abc'')) = abc_block"
  by code_simp

lemma sha1_abc_words: "rev (be_words abc_block) = rev (take 16 abc_schedule)"
  by code_simp

lemma sha1_abc_expand_1: "sha1_expand 8 (rev (take 16 abc_schedule)) = rev (take 24 abc_schedule)"
  by code_simp

lemma sha1_abc_expand_2: "sha1_expand 8 (rev (take 24 abc_schedule)) = rev (take 32 abc_schedule)"
  by code_simp

lemma sha1_abc_expand_3: "sha1_expand 8 (rev (take 32 abc_schedule)) = rev (take 40 abc_schedule)"
  by code_simp

lemma sha1_abc_expand_4: "sha1_expand 8 (rev (take 40 abc_schedule)) = rev (take 48 abc_schedule)"
  by code_simp

lemma sha1_abc_expand_5: "sha1_expand 8 (rev (take 48 abc_schedule)) = rev (take 56 abc_schedule)"
  by code_simp

lemma sha1_abc_expand_6: "sha1_expand 8 (rev (take 56 abc_schedule)) = rev (take 64 abc_schedule)"
  by code_simp

lemma sha1_abc_expand_7: "sha1_expand 8 (rev (take 64 abc_schedule)) = rev (take 72 abc_schedule)"
  by code_simp

lemma sha1_abc_expand_8: "sha1_expand 8 (rev (take 72 abc_schedule)) = rev (take 80 abc_schedule)"
  by code_simp

lemma sha1_abc_schedule: "rev (sha1_expand 64 (rev (be_words abc_block))) = abc_schedule"
proof -
  have "sha1_expand 64 w = sha1_expand 8 (sha1_expand 8 (sha1_expand 8 (sha1_expand 8
          (sha1_expand 8 (sha1_expand 8 (sha1_expand 8 (sha1_expand 8 w)))))))" for w
    using sha1_expand_add [of 8 56 w] sha1_expand_add [of 8 48] sha1_expand_add [of 8 40]
      sha1_expand_add [of 8 32] sha1_expand_add [of 8 24] sha1_expand_add [of 8 16]
      sha1_expand_add [of 8 8]
    by simp
  then have "sha1_expand 64 (rev (be_words abc_block)) = rev (take 80 abc_schedule)"
    by (simp only: sha1_abc_words sha1_abc_expand_1 sha1_abc_expand_2 sha1_abc_expand_3
        sha1_abc_expand_4 sha1_abc_expand_5 sha1_abc_expand_6 sha1_abc_expand_7
        sha1_abc_expand_8)
  moreover have "take 80 abc_schedule = abc_schedule"
    by (simp add: abc_schedule_def)
  ultimately show ?thesis
    by (simp only: rev_rev_ident)
qed

lemma sha1_abc_rounds:
  "foldl sha1_round sha1_init (zip [0..<80] abc_schedule) =
     (1112808245, 1463342561, 562251891, 1746824694, 3640522413)"
  by code_simp

lemma sha1_abc_block:
  "sha1_block sha1_init abc_block = (0xa9993e36, 0x4706816a, 0xba3e2571, 0x7850c26c, 0x9cd0d89d)"
  by (simp only: sha1_block_def Let_def sha1_abc_schedule sha1_abc_rounds) code_simp

lemma abc_block_single: "take 64 abc_block = abc_block" "drop 64 abc_block = []" "abc_block \<noteq> []"
  by (simp_all add: abc_block_def)

lemma sha1_abc: "hexdigest (update sha1 ''abc'') = ''a9993e364706816aba3e25717850c26c9cd0d89d''"
proof -
  have "sha1_blocks sha1_init abc_block = sha1_blocks (sha1_block sha1_init abc_block) []"
    by (subst sha1_blocks.simps) (simp only: abc_block_single if_False)
  also have "\<dots> = sha1_block sha1_init abc_block"
    by (subst sha1_blocks.simps) simp
  finally have "sha1_blocks sha1_init abc_block =
      (0xa9993e36, 0x4706816a, 0xba3e2571, 0x7850c26c, 0x9cd0d89d)"
    by (simp only: sha1_abc_block)
  then have "hexdigest (update sha1 ''abc'') =
      sha1_hex (0xa9993e36, 0x4706816a, 0xba3e2571, 0x7850c26c, 0x9cd0d89d)"
    by (simp only: hexdigest_def sha1_abc_pad)
  also have "\<dots> = ''a9993e364706816aba3e25717850c26c9cd0d89d''"
    by code_simp
  finally show ?thesis .
qed


subsection \<open>Padding and digest length\<close>

text \<open>
  The padded message is a whole number of 64-byte blocks, so every block given to
  \<^const>\<open>sha1_block\<close> has its 16 words and the schedule never reads outside the list.
\<close>

lemma length_be64: "length (be64 n) = 8"
  by (simp add: be64_def)

lemma pad_arith: "(l + 9 + (119 - l mod 64) mod 64) mod 64 = 0" for l :: nat
proof -
  define r where "r = l mod 64"
  have r: "r < 64" by (simp add: r_def)
  have l: "l = 64 * (l div 64) + r" by (simp add: r_def)
  have k: "(119 - r) mod 64 = (if r \<le> 55 then 55 - r else 119 - r)"
    using r by (auto simp: mod_if)
  have "(r + 9 + (119 - r) mod 64) mod 64 = 0"
    using r by (auto simp: k)
  then have "(64 * (l div 64) + (r + 9 + (119 - r) mod 64)) mod 64 = 0"
    by (simp only: mod_mult_self4)
  then show ?thesis
    using l unfolding r_def by (simp add: add.assoc)
qed

lemma length_sha1_pad: "length (sha1_pad bs) mod 64 = 0"
proof -
  have "length (sha1_pad bs) = length bs + 9 + (119 - length bs mod 64) mod 64"
    by (simp add: sha1_pad_def Let_def length_be64)
  then show ?thesis
    by (simp only: pad_arith)
qed

lemma length_hex32: "length (hex32 w) = 8"
  by (simp add: hex32_def)

lemma length_hexdigest: "length (hexdigest h) = 40"
  by (cases "sha1_blocks sha1_init (sha1_pad (map of_char h))")
     (simp add: hexdigest_def length_hex32)

lemma format_val_example: "format_val (PyInt 8080) = ''8080'' \<and> format_val (PyInt (- 1)) = ''-1''"
  by (simp add: str_int_def digit_char_def)

subsection \<open>The plan of \<^const>\<open>script\<close>\<close>

lemma script_unfold:
  "script put filename =
     put filename (''/tmp/'' @ hexdigest (update sha1 filename))
     @ [''chmod +x '' @ (''/tmp/'' @ hexdigest (update sha1 filename)),
        ''/tmp/'' @ hexdigest (update sha1 filename)]"
  by (simp add: script_def Let_def)

lemma script_abc_example:
  "script put ''abc'' =
     put ''abc'' ''/tmp/a9993e364706816aba3e25717850c26c9cd0d89d''
     @ [''chmod +x /tmp/a9993e364706816aba3e25717850c26c9cd0d89d'',
        ''/tmp/a9993e364706816aba3e25717850c26c9cd0d89d'']"
  by (simp add: script_unfold sha1_abc)

subsection \<open>The branches of \<^const>\<open>user\<close>\<close>

lemma user_fields_existing:
  "user_fields commands (Some u) name present home login_shell =
     Inr (commands
          @ (if Some (fact_home u) = home then [] else [usermod_home_cmd home name])
          @ (if Some (fact_shell u) = login_shell then [] else [usermod_shell_cmd login_shell name]))"
  by (simp add: user_fields_def)

lemma user_fields_create:
  "user_fields commands None name True home login_shell =
     Inr (commands @ [useradd_cmd home login_shell name])"
  by (simp add: user_fields_def)

lemma user_fields_absent_unwanted:
  "user_fields commands None name False home login_shell =
     Inl (TypeError ''NoneType object has no attribute __getitem__'')"
  by (simp add: user_fields_def)

lemma user_keys_raises:
  "user_keys directory commands name home keys =
     Inl (TypeError ''user is an invalid keyword argument for this function'')"
  by (simp add: user_keys_def builtin_file_def)

lemma user_present_existing:
  assumes "users name = Some u"
  shows "user directory (Some users) name True home login_shell None =
     Inr ((if Some (fact_home u) = home then [] else [usermod_home_cmd home name])
          @ (if Some (fact_shell u) = login_shell then [] else [usermod_shell_cmd login_shell name])
          @ directory home name name None)"
  using assms by (simp add: user_def user_fields_existing)

lemma user_present_absent:
  assumes "users name = None"
  shows "user directory (Some users) name True home login_shell None =
     Inr (useradd_cmd home login_shell name # directory home name name None)"
  using assms by (simp add: user_def user_fields_create)

lemma user_absent_unwanted:
  assumes "users name = None"
  shows "user directory (Some users) name False home login_shell public_keys =
     Inl (TypeError ''NoneType object has no attribute __getitem__'')"
  using assms by (simp add: user_def user_fields_absent_unwanted)

lemma user_no_fact:
  "user directory None name present home login_shell public_keys =
     user directory (Some Map.empty) name present home login_shell public_keys"
  by (simp add: user_def)

lemma user_unset_home_never_converges:
  assumes "users name = Some u"
  shows "user directory (Some users) name True None login_shell None \<noteq> Inr []"
  using assms by (simp add: user_present_existing)

lemma user_rerun_converged:
  "user directory (Some (users(name \<mapsto> \<lparr>fact_home = h, fact_shell = s\<rparr>)))
        name True (Some h) (Some s) None
     = Inr (directory (Some h) name name None)"
  by (simp add: user_def user_fields_existing)

subsection \<open>The claims\<close>

text \<open>
  C1. The claim is that a second run of the user operation, against the users fact updated
  with the effects of the first plan, returns the empty plan. The code does not do so on two
  inputs the claim covers. After a removal the fact has no record for the name, and the second
  run with present=False raises on \<^verbatim>\<open>user['home']\<close>. With home left at its default \<^verbatim>\<open>None\<close> the first
  run creates the user with the text \<^verbatim>\<open>None\<close> as home, and the second run compares the recorded
  string with \<^verbatim>\<open>None\<close> and asks for the home to be changed again.
\<close>

theorem user_rerun_not_empty:
  "user (\<lambda>path usr grp mode. [])
        (Some [''bob'' \<mapsto> \<lparr>fact_home = ''/home/bob'', fact_shell = ''/bin/sh''\<rparr>])
        ''bob'' False None None None
     = Inr [''userdel bob'']
   \<and> user (\<lambda>path usr grp mode. []) (Some Map.empty) ''bob'' False None None None
     = Inl (TypeError ''NoneType object has no attribute __getitem__'')
   \<and> user (\<lambda>path usr grp mode. []) (Some Map.empty) ''alice'' True None (Some ''/bin/bash'') None
     = Inr [''useradd -d None -s /bin/bash alice'']
   \<and> user (\<lambda>path usr grp mode. [])
        (Some (Map.empty(''alice'' \<mapsto> \<lparr>fact_home = ''None'', fact_shell = ''/bin/bash''\<rparr>)))
        ''alice'' True None (Some ''/bin/bash'') None
     = Inr [''usermod -d None alice'']"
  by (simp add: user_def user_fields_def userdel_cmd_def useradd_cmd_def usermod_home_cmd_def)

text \<open>
  C2. The claim is that no modification command is emitted for a field the descriptor leaves
  unset. The code tests \<^verbatim>\<open>public_keys is not None\<close> but compares home and shell with the record
  without such a test: with home unset and the shell matching, the plan holds a home
  modification, and the default call on an existing user asks for both fields to be changed to
  the text \<^verbatim>\<open>None\<close>.
\<close>

theorem user_unset_fields_modified:
  "user (\<lambda>path usr grp mode. [])
        (Some [''alice'' \<mapsto> \<lparr>fact_home = ''/home/alice'', fact_shell = ''/bin/bash''\<rparr>])
        ''alice'' True None (Some ''/bin/bash'') None
     = Inr [''usermod -d None alice'']
   \<and> user (\<lambda>path usr grp mode. [])
        (Some [''alice'' \<mapsto> \<lparr>fact_home = ''/home/alice'', fact_shell = ''/bin/bash''\<rparr>])
        ''alice'' True None None None
     = Inr [''usermod -d None alice'', ''usermod -s None alice'']"
  by (simp add: user_def user_fields_def usermod_home_cmd_def usermod_shell_cmd_def)

text \<open>
  C3. The claim is that the user operation returns a plan for every descriptor and fact. The
  code raises \<^verbatim>\<open>TypeError\<close> on two inputs the claim names: with present=False and no record for
  the name, and with a non-empty list of public keys.
\<close>

theorem user_raises_without_plan:
  "user (\<lambda>path usr grp mode. []) (Some Map.empty) ''bob'' False None None None
     = Inl (TypeError ''NoneType object has no attribute __getitem__'')
   \<and> user (\<lambda>path usr grp mode. [])
        (Some [''alice'' \<mapsto> \<lparr>fact_home = ''/home/alice'', fact_shell = ''/bin/bash''\<rparr>])
        ''alice'' True (Some ''/home/alice'') (Some ''/bin/bash'') (Some [''ssh-rsa AAA''])
     = Inl (TypeError ''user is an invalid keyword argument for this function'')"
  by (simp add: user_def user_fields_def user_keys_def builtin_file_def)

text \<open>
  C4. With present=False and a record for the name in the users fact, the plan is the single
  command \<^verbatim>\<open>userdel name\<close>, whatever home, shell and public keys the descriptor sets.
\<close>

theorem user_removal_precedence:
  assumes "users name = Some u"
  shows "user directory (Some users) name False home login_shell public_keys
           = Inr [''userdel '' @ name]"
  using assms by (simp add: user_def userdel_cmd_def)

theorem user_removal_precedence_witness:
  "[''bob'' \<mapsto> \<lparr>fact_home = ''/home/bob'', fact_shell = ''/bin/sh''\<rparr>] ''bob''
     = Some \<lparr>fact_home = ''/home/bob'', fact_shell = ''/bin/sh''\<rparr>
   \<and> user (\<lambda>path usr grp mode. [''chown bob:bob '' @ format_opt path])
        (Some [''bob'' \<mapsto> \<lparr>fact_home = ''/home/bob'', fact_shell = ''/bin/sh''\<rparr>])
        ''bob'' False (Some ''/srv/bob'') (Some ''/bin/zsh'') (Some [''ssh-rsa AAA''])
     = Inr [''userdel bob'']"
  using user_removal_precedence
    [of "[''bob'' \<mapsto> \<lparr>fact_home = ''/home/bob'', fact_shell = ''/bin/sh''\<rparr>]" "''bob''"
        "\<lparr>fact_home = ''/home/bob'', fact_shell = ''/bin/sh''\<rparr>"
        "\<lambda>path usr grp mode. [''chown bob:bob '' @ format_opt path]"
        "Some ''/srv/bob''" "Some ''/bin/zsh''" "Some [''ssh-rsa AAA'']"]
  by simp

text \<open>
  C5. The claim is that a descriptor with present=True and a list of public keys gets a plan
  with the commands for the \<^verbatim>\<open>.ssh\<close> directory, for \<^verbatim>\<open>authorized_keys\<close> and one append per key. The
  code never returns such a plan: for every fact and every list of keys, also the empty one,
  the call of \<^verbatim>\<open>file\<close> raises.
\<close>

theorem user_public_keys_raise:
  "user directory host_users name True home login_shell (Some keys) =
     Inl (TypeError ''user is an invalid keyword argument for this function'')"
  by (cases "(case host_users of None \<Rightarrow> Map.empty | Some m \<Rightarrow> m) name")
     (simp_all add: user_def user_fields_existing user_fields_create user_keys_raises)

text \<open>
  C6. With present=True, a record for the name, and home and shell both set and both different
  from the record, the plan without public keys starts with the home modification followed by
  the shell modification, then the home-directory commands; and whenever a plan is returned,
  with or without public keys, its first two commands are these, in this order.
\<close>

theorem user_home_before_shell:
  assumes "users name = Some u" and "fact_home u \<noteq> h" and "fact_shell u \<noteq> s"
  shows "user directory (Some users) name True (Some h) (Some s) None =
           Inr (usermod_home_cmd (Some h) name # usermod_shell_cmd (Some s) name
                # directory (Some h) name name None)
    \<and> (\<forall>plan. user directory (Some users) name True (Some h) (Some s) public_keys = Inr plan
          \<longrightarrow> take 2 plan = [usermod_home_cmd (Some h) name, usermod_shell_cmd (Some s) name])"
proof -
  have unkeyed: "user directory (Some users) name True (Some h) (Some s) None =
           Inr (usermod_home_cmd (Some h) name # usermod_shell_cmd (Some s) name
                # directory (Some h) name name None)"
    using assms by (simp add: user_present_existing)
  have keyed: "user directory (Some users) name True (Some h) (Some s) (Some keys) =
           Inl (TypeError ''user is an invalid keyword argument for this function'')" for keys
    using assms by (simp add: user_def user_fields_existing user_keys_raises)
  show ?thesis
  proof (cases public_keys)
    case None
    with unkeyed show ?thesis by simp
  next
    case (Some keys)
    with unkeyed keyed show ?thesis by simp
  qed
qed

theorem user_home_before_shell_witness:
  "[''alice'' \<mapsto> \<lparr>fact_home = ''/home/old'', fact_shell = ''/bin/sh''\<rparr>] ''alice''
     = Some \<lparr>fact_home = ''/home/old'', fact_shell = ''/bin/sh''\<rparr>
   \<and> ''/home/old'' \<noteq> ''/home/alice'' \<and> ''/bin/sh'' \<noteq> ''/bin/bash''
   \<and> user (\<lambda>path usr grp mode. [''chown alice:alice '' @ format_opt path])
        (Some [''alice'' \<mapsto> \<lparr>fact_home = ''/home/old'', fact_shell = ''/bin/sh''\<rparr>])
        ''alice'' True (Some ''/home/alice'') (Some ''/bin/bash'') None
     = Inr [''usermod -d /home/alice alice'', ''usermod -s /bin/bash alice'',
            ''chown alice:alice /home/alice'']
   \<and> take 2 [''usermod -d /home/alice alice'', ''usermod -s /bin/bash alice'',
            ''chown alice:alice /home/alice'']
     = [''usermod -d /home/alice alice'', ''usermod -s /bin/bash alice'']"
  using user_home_before_shell
    [of "[''alice'' \<mapsto> \<lparr>fact_home = ''/home/old'', fact_shell = ''/bin/sh''\<rparr>]" "''alice''"
        "\<lparr>fact_home = ''/home/old'', fact_shell = ''/bin/sh''\<rparr>"
        "''/home/alice''" "''/bin/bash''"
        "\<lambda>path usr grp mode. [''chown alice:alice '' @ format_opt path]" None]
  by (simp add: usermod_home_cmd_def usermod_shell_cmd_def)

text \<open>
  C7. The shell operation returns exactly the sequence of commands it is given, unchanged and in
  the same order; it takes no fact.
\<close>

theorem shell_identity: "shell commands = commands"
  by (simp add: shell_def)

text \<open>
  C8. For every file name the plan of the script operation is the upload commands for the
  temporary path, then \<^verbatim>\<open>chmod +x\<close> on that path, then the path itself as the command that runs
  it. The path is \<^verbatim>\<open>/tmp/\<close> followed by a digest of the file name, so a later run for the same
  script, whatever its upload commands are then, ends with the same path.
\<close>

theorem script_plan_shape:
  "script put filename =
     put filename (''/tmp/'' @ hexdigest (update sha1 filename))
     @ [''chmod +x '' @ (''/tmp/'' @ hexdigest (update sha1 filename)),
        ''/tmp/'' @ hexdigest (update sha1 filename)]
   \<and> last (script put filename) = last (script put' filename)"
  by (simp add: script_unfold)

text \<open>
  C9. For every port the wait operation returns one command, without raising. The command is
  the shell text below: when \<^verbatim>\<open>nc\<close> is found, a loop that probes the port with it and sleeps 5
  seconds between tries; otherwise, when \<^verbatim>\<open>timeout\<close> and \<^verbatim>\<open>bash\<close> are found, the same loop with
  a write to \<^verbatim>\<open>/dev/tcp\<close>; otherwise a message and \<^verbatim>\<open>exit 1\<close>. The choice between the three
  branches is part of the text, so it is made when the command runs.
\<close>

theorem wait_single_polling_command:
  \<open>wait port =
     [concat (map (\<lambda>line. line @ ''\<newline>'')
        ['''',
         ''        if [ $(which nc) ]; then'',
         ''            while ! nc -q 1 localhost '' @ format_val port @ '' < /dev/null; do sleep 5; done'',
         ''        elif [ $(which timeout) ] && [ $(which bash) ]; then'',
         ''            while ! timeout 1 bash -c "echo > /dev/tcp/localhost/'' @ format_val port @ ''"; do sleep 5; done'',
         ''        else'',
         ''            echo "No nc or timeout/bash!"'',
         ''            exit 1'',
         ''        fi''])
      @ ''    '']
   \<and> length (wait port) = 1\<close>
  by (simp add: wait_def wait_head_def wait_mid_def wait_tail_def)

text \<open>
  C10. The remote path of the script operation is \<^verbatim>\<open>/tmp/\<close> followed by the 40 hexadecimal digits
  of the SHA-1 digest of the bytes of the file name, 45 characters in all. Nothing else enters
  it: the upload sub-operation, which is where the content of the local file matters, receives
  this path and has no part in computing it, so two scripts with different contents under one
  file name get the same path.
\<close>

theorem script_temp_path_from_filename:
  "last (script put filename)
     = ''/tmp/'' @ sha1_hex (sha1_blocks sha1_init (sha1_pad (map of_char filename)))
   \<and> length (last (script put filename)) = 45
   \<and> last (script put1 filename) = last (script put2 filename)
   \<and> script put filename = put filename (last (script put filename))
         @ [''chmod +x '' @ last (script put filename), last (script put filename)]"
proof -
  have path: "last (script p filename) = ''/tmp/'' @ hexdigest (update sha1 filename)" for p
    by (simp add: script_unfold)
  have digest: "hexdigest (update sha1 filename)
      = sha1_hex (sha1_blocks sha1_init (sha1_pad (map of_char filename)))"
    by (simp only: hexdigest_def update_def sha1_def append_Nil)
  have len: "length (''/tmp/'' @ hexdigest (update sha1 filename)) = 45"
    by (simp add: length_hexdigest)
  show ?thesis
    unfolding path using digest len by (simp add: script_unfold)
qed

end
